theory Spec2Isabelle
  imports Main "HOL-Library.Word"
begin

section \<open>The coin ledger: tables\<close>

text \<open>
  The ledger is the pair of PL/pgSQL functions \<open>deduct_user_coins\<close> and
  \<open>add_user_coins\<close> of the Supabase setup script, over the column
  \<open>profiles.coins\<close> and the table \<open>coin_transactions\<close>.

  \<^item> \<open>INTEGER\<close> is PostgreSQL's 32-bit signed integer: a \<open>32 word\<close> read with
    \<open>sint\<close>. Its \<open>+\<close> and \<open>-\<close> do not wrap: a result outside the type raises
    "integer out of range", which \<open>int4pl\<close> and \<open>int4mi\<close> return as an error.
  \<^item> An \<open>INTEGER\<close> parameter or variable holds an integer or NULL: an
    \<open>int4 option\<close>, \<open>None\<close> for NULL. Neither function is declared \<open>STRICT\<close>,
    so a call with a NULL \<open>p_amount\<close> runs the body. Comparisons and
    arithmetic with NULL give NULL, and an \<open>IF\<close> whose condition is NULL does
    not take its branch.
  \<^item> \<open>profiles\<close> is keyed by its primary key \<open>id\<close>; only the column \<open>coins\<close>
    (\<open>INTEGER DEFAULT 0 NOT NULL\<close>) matters here, so the table is a map from
    the id to the coins of the row. \<open>None\<close> is "no such row".
  \<^item> \<open>coin_transactions\<close> is only ever inserted into: the list of its rows in
    insertion order. The columns \<open>id\<close> and \<open>timestamp\<close> are filled by the
    defaults \<open>gen_random_uuid()\<close> and \<open>now()\<close> and are read by no function; the
    position in the list stands for them.
  \<^item> \<open>details\<close> is the \<open>jsonb_build_object\<close> of the row: the keys with their
    values, in the order the source writes them.
  \<^item> The arguments \<open>p_user_id\<close> and \<open>p_reason\<close> are taken to be non-NULL
    values of their types (a NULL \<open>p_user_id\<close> matches no row, like any id
    that no row has); \<open>p_game_id\<close>, declared \<open>DEFAULT NULL\<close>, is an option.
\<close>

type_synonym uuid = string

type_synonym int4 = "32 word"

datatype jsonb = JInt int4 | JText string | JNull

record coin_transaction =
  user_id :: uuid
  action :: string
  details :: "(string \<times> jsonb) list"

record db =
  profiles :: "uuid \<rightharpoonup> int4"
  coin_transactions :: "coin_transaction list"

text \<open>
  What a call can end with instead of a value: a \<open>RAISE EXCEPTION\<close> of the
  function body (its format string and the values for its \<open>%\<close> placeholders),
  or an error of the database engine itself.
\<close>

datatype pg_error =
    RaiseException string "int4 option list"
  | IntegerOutOfRange
  | CheckViolation string
  | NotNullViolation string

section \<open>The engine's part: integer arithmetic and the two statements\<close>

definition int4_in_range :: "int \<Rightarrow> bool" where
  "int4_in_range k \<longleftrightarrow> - 2147483648 \<le> k \<and> k \<le> 2147483647"

definition int4pl :: "int4 \<Rightarrow> int4 \<Rightarrow> pg_error + int4" where
  "int4pl a b =
     (if int4_in_range (sint a + sint b) then Inr (a + b) else Inl IntegerOutOfRange)"

definition int4mi :: "int4 \<Rightarrow> int4 \<Rightarrow> pg_error + int4" where
  "int4mi a b =
     (if int4_in_range (sint a - sint b) then Inr (a - b) else Inl IntegerOutOfRange)"

text \<open>
  The operators as SQL applies them: NULL when an operand is NULL. A
  comparison is then neither true nor false (\<open>None\<close>), and \<open>is_true\<close> is the
  test an \<open>IF\<close> makes of its condition.
\<close>

definition sql_le :: "int4 option \<Rightarrow> int4 option \<Rightarrow> bool option" where
  "sql_le a b =
     (case a of
        None \<Rightarrow> None
      | Some x \<Rightarrow> (case b of None \<Rightarrow> None | Some y \<Rightarrow> Some (sint x \<le> sint y)))"

definition sql_lt :: "int4 option \<Rightarrow> int4 option \<Rightarrow> bool option" where
  "sql_lt a b =
     (case a of
        None \<Rightarrow> None
      | Some x \<Rightarrow> (case b of None \<Rightarrow> None | Some y \<Rightarrow> Some (sint x < sint y)))"

definition is_true :: "bool option \<Rightarrow> bool" where
  "is_true c \<longleftrightarrow> c = Some True"

definition sql_int4pl :: "int4 option \<Rightarrow> int4 option \<Rightarrow> pg_error + int4 option" where
  "sql_int4pl a b =
     (case a of
        None \<Rightarrow> Inr None
      | Some x \<Rightarrow>
          (case b of
             None \<Rightarrow> Inr None
           | Some y \<Rightarrow> (case int4pl x y of Inl e \<Rightarrow> Inl e | Inr v \<Rightarrow> Inr (Some v))))"

definition sql_int4mi :: "int4 option \<Rightarrow> int4 option \<Rightarrow> pg_error + int4 option" where
  "sql_int4mi a b =
     (case a of
        None \<Rightarrow> Inr None
      | Some x \<Rightarrow>
          (case b of
             None \<Rightarrow> Inr None
           | Some y \<Rightarrow> (case int4mi x y of Inl e \<Rightarrow> Inl e | Inr v \<Rightarrow> Inr (Some v))))"

text \<open>
  \<open>UPDATE public.profiles SET coins = v WHERE id = uid\<close>, on a column that is
  \<open>NOT NULL\<close> and under the constraint \<open>coins_non_negative CHECK (coins >= 0)\<close>.
  No row with that id: nothing is written. A NULL, or a value that breaks
  the constraint: the statement fails and writes nothing.
\<close>

definition update_profiles_coins :: "uuid \<Rightarrow> int4 option \<Rightarrow> db \<Rightarrow> pg_error + db" where
  "update_profiles_coins uid v d =
     (case profiles d uid of
        None \<Rightarrow> Inr d
      | Some _ \<Rightarrow>
          (case v of
             None \<Rightarrow> Inl (NotNullViolation ''coins'')
           | Some w \<Rightarrow>
               if sint w < 0 then Inl (CheckViolation ''coins_non_negative'')
               else Inr (d\<lparr>profiles := (profiles d)(uid \<mapsto> w)\<rparr>)))"

text \<open>
  \<open>UPDATE public.profiles SET coins = coins + p_amount WHERE id = uid
  RETURNING coins\<close>: the new value of the row, or NULL (\<open>None\<close>) when no row
  has that id.
\<close>

definition update_profiles_add_returning ::
  "uuid \<Rightarrow> int4 option \<Rightarrow> db \<Rightarrow> pg_error + (int4 option \<times> db)" where
  "update_profiles_add_returning uid p_amount d =
     (case profiles d uid of
        None \<Rightarrow> Inr (None, d)
      | Some coins \<Rightarrow>
          (case sql_int4pl (Some coins) p_amount of
             Inl e \<Rightarrow> Inl e
           | Inr None \<Rightarrow> Inl (NotNullViolation ''coins'')
           | Inr (Some w) \<Rightarrow>
               if sint w < 0 then Inl (CheckViolation ''coins_non_negative'')
               else Inr (Some w, d\<lparr>profiles := (profiles d)(uid \<mapsto> w)\<rparr>)))"

text \<open>\<open>INSERT INTO public.coin_transactions (user_id, action, details) VALUES ...\<close>\<close>

definition insert_coin_transaction :: "coin_transaction \<Rightarrow> db \<Rightarrow> db" where
  "insert_coin_transaction row d =
     d\<lparr>coin_transactions := coin_transactions d @ [row]\<rparr>"

definition jsonb_text_or_null :: "string option \<Rightarrow> jsonb" where
  "jsonb_text_or_null s = (case s of None \<Rightarrow> JNull | Some t \<Rightarrow> JText t)"

definition jsonb_int4_or_null :: "int4 option \<Rightarrow> jsonb" where
  "jsonb_int4_or_null n = (case n of None \<Rightarrow> JNull | Some k \<Rightarrow> JInt k)"

section \<open>The two functions\<close>

text \<open>
  Each function returns its result, a value or the error it ended with,
  together with the tables as they are at that point of the body. The
  value is of the declared type \<open>RETURNS INTEGER\<close>.
\<close>

definition deduct_user_coins ::
  "uuid \<Rightarrow> int4 option \<Rightarrow> string \<Rightarrow> string option \<Rightarrow> db \<Rightarrow>
   (pg_error + int4 option) \<times> db" where
  "deduct_user_coins p_user_id p_amount p_reason p_game_id d =
     (if is_true (sql_le p_amount (Some 0)) then
        (Inl (RaiseException ''Amount must be positive'' []), d)
      else
        (case profiles d p_user_id of
           None \<Rightarrow> (Inl (RaiseException ''User not found'' []), d)
         | Some v_current_coins \<Rightarrow>
             if is_true (sql_lt (Some v_current_coins) p_amount) then
               (Inl (RaiseException ''Insufficient coins. Have: %, Need: %''
                       [Some v_current_coins, p_amount]), d)
             else
               (case sql_int4mi (Some v_current_coins) p_amount of
                  Inl e \<Rightarrow> (Inl e, d)
                | Inr v_new_coins \<Rightarrow>
                    (case update_profiles_coins p_user_id v_new_coins d of
                       Inl e \<Rightarrow> (Inl e, d)
                     | Inr d1 \<Rightarrow>
                         (Inr v_new_coins,
                          insert_coin_transaction
                            \<lparr>user_id = p_user_id,
                             action = ''coin_deduction'',
                             details =
                               [(''amount'', jsonb_int4_or_null p_amount),
                                (''reason'', JText p_reason),
                                (''game_id'', jsonb_text_or_null p_game_id),
                                (''new_balance'', jsonb_int4_or_null v_new_coins)]\<rparr>
                            d1)))))"

definition add_user_coins ::
  "uuid \<Rightarrow> int4 option \<Rightarrow> string \<Rightarrow> db \<Rightarrow> (pg_error + int4 option) \<times> db" where
  "add_user_coins p_user_id p_amount p_reason d =
     (if is_true (sql_le p_amount (Some 0)) then
        (Inl (RaiseException ''Amount must be positive'' []), d)
      else
        (case update_profiles_add_returning p_user_id p_amount d of
           Inl e \<Rightarrow> (Inl e, d)
         | Inr (v_new_coins, d1) \<Rightarrow>
             if v_new_coins = None then
               (Inl (RaiseException ''User not found'' []), d1)
             else
               (Inr v_new_coins,
                insert_coin_transaction
                  \<lparr>user_id = p_user_id,
                   action = ''coin_addition'',
                   details =
                     [(''amount'', jsonb_int4_or_null p_amount),
                      (''reason'', JText p_reason),
                      (''new_balance'', jsonb_int4_or_null v_new_coins)]\<rparr>
                  d1)))"

text \<open>
  The copy of \<open>deduct_user_coins\<close> that the script \<open>execute-setup.js\<close> installs.
  It is the same body except for the third exception, which is raised as
  \<open>'Insufficient coins'\<close> with no values. The script's \<open>add_user_coins\<close> is
  the body above, statement for statement.
\<close>

definition deduct_user_coins_execute_setup ::
  "uuid \<Rightarrow> int4 option \<Rightarrow> string \<Rightarrow> string option \<Rightarrow> db \<Rightarrow>
   (pg_error + int4 option) \<times> db" where
  "deduct_user_coins_execute_setup p_user_id p_amount p_reason p_game_id d =
     (if is_true (sql_le p_amount (Some 0)) then
        (Inl (RaiseException ''Amount must be positive'' []), d)
      else
        (case profiles d p_user_id of
           None \<Rightarrow> (Inl (RaiseException ''User not found'' []), d)
         | Some v_current_coins \<Rightarrow>
             if is_true (sql_lt (Some v_current_coins) p_amount) then
               (Inl (RaiseException ''Insufficient coins'' []), d)
             else
               (case sql_int4mi (Some v_current_coins) p_amount of
                  Inl e \<Rightarrow> (Inl e, d)
                | Inr v_new_coins \<Rightarrow>
                    (case update_profiles_coins p_user_id v_new_coins d of
                       Inl e \<Rightarrow> (Inl e, d)
                     | Inr d1 \<Rightarrow>
                         (Inr v_new_coins,
                          insert_coin_transaction
                            \<lparr>user_id = p_user_id,
                             action = ''coin_deduction'',
                             details =
                               [(''amount'', jsonb_int4_or_null p_amount),
                                (''reason'', JText p_reason),
                                (''game_id'', jsonb_text_or_null p_game_id),
                                (''new_balance'', jsonb_int4_or_null v_new_coins)]\<rparr>
                            d1)))))"

section \<open>Sequences of calls\<close>

text \<open>
  A caller's request is one of the two functions with its arguments.
  \<open>run_calls\<close> performs the requests one after the other, each on the tables
  the previous one left, whatever each of them returned.
\<close>

datatype ledger_call =
    Debit uuid "int4 option" string "string option"
  | Credit uuid "int4 option" string

fun perform :: "ledger_call \<Rightarrow> db \<Rightarrow> (pg_error + int4 option) \<times> db" where
  "perform (Debit uid amount reason game) d = deduct_user_coins uid amount reason game d"
| "perform (Credit uid amount reason) d = add_user_coins uid amount reason d"

definition run_calls :: "ledger_call list \<Rightarrow> db \<Rightarrow> db" where
  "run_calls cs d = fold (\<lambda>c s. snd (perform c s)) cs d"

text \<open>How many calls of a sequence return a value, when they run one after the other.\<close>

fun successes :: "ledger_call list \<Rightarrow> db \<Rightarrow> nat" where
  "successes [] d = 0"
| "successes (c # cs) d =
     (case perform c d of
        (Inl e, d') \<Rightarrow> successes cs d'
      | (Inr v, d') \<Rightarrow> Suc (successes cs d'))"


section \<open>Properties of the tables\<close>

text \<open>The constraint \<open>coins_non_negative CHECK (coins >= 0)\<close>, of every row.\<close>

definition coins_non_negative :: "db \<Rightarrow> bool" where
  "coins_non_negative d \<longleftrightarrow> (\<forall>uid c. profiles d uid = Some c \<longrightarrow> 0 \<le> sint c)"

text \<open>
  Tables on which no ledger function has run yet: every account holds the
  column default 0 and \<open>coin_transactions\<close> is empty.
\<close>

definition fresh :: "db \<Rightarrow> bool" where
  "fresh d \<longleftrightarrow> coin_transactions d = [] \<and> (\<forall>uid c. profiles d uid = Some c \<longrightarrow> c = 0)"

text \<open>
  Replaying a log, as the specification words it: start from a balance,
  add the amount of a \<open>coin_addition\<close>, subtract the amount of a
  \<open>coin_deduction\<close>, and compare the running balance with the \<open>new_balance\<close>
  the row recorded. The replay is over the unbounded integers. It gives the
  final balance, or \<open>None\<close> as soon as a row does not agree (or is not a
  ledger row).
\<close>

definition jsonb_int :: "(string \<times> jsonb) list \<Rightarrow> string \<Rightarrow> int option" where
  "jsonb_int obj k = (case map_of obj k of Some (JInt n) \<Rightarrow> Some (sint n) | _ \<Rightarrow> None)"

definition replay_entry :: "int \<Rightarrow> coin_transaction \<Rightarrow> int option" where
  "replay_entry b e =
     (case jsonb_int (details e) ''amount'' of
        None \<Rightarrow> None
      | Some a \<Rightarrow>
          if action e = ''coin_addition'' then Some (b + a)
          else if action e = ''coin_deduction'' then Some (b - a)
          else None)"

fun replay :: "int \<Rightarrow> coin_transaction list \<Rightarrow> int option" where
  "replay b [] = Some b"
| "replay b (e # es) =
     (case replay_entry b e of
        None \<Rightarrow> None
      | Some b' \<Rightarrow>
          if jsonb_int (details e) ''new_balance'' = Some b' then replay b' es else None)"

definition entries_of :: "uuid \<Rightarrow> db \<Rightarrow> coin_transaction list" where
  "entries_of uid d = filter (\<lambda>e. user_id e = uid) (coin_transactions d)"

text \<open>The log of every account replays, from 0, to the coins the account holds.\<close>

definition ledger_consistent :: "db \<Rightarrow> bool" where
  "ledger_consistent d \<longleftrightarrow>
     (\<forall>uid B. profiles d uid = Some B \<longrightarrow> replay 0 (entries_of uid d) = Some (sint B))"

section \<open>Concrete tables for the evaluations below\<close>

definition db_500 :: db where
  "db_500 = \<lparr>profiles = [''acct'' \<mapsto> 500], coin_transactions = []\<rparr>"

definition db_5 :: db where
  "db_5 = \<lparr>profiles = [''acct'' \<mapsto> 5], coin_transactions = []\<rparr>"

definition db_max :: db where
  "db_max = \<lparr>profiles = [''acct'' \<mapsto> 2147483647], coin_transactions = []\<rparr>"

definition db_fresh :: db where
  "db_fresh = \<lparr>profiles = [''acct'' \<mapsto> 0], coin_transactions = []\<rparr>"

definition calls_507 :: "ledger_call list" where
  "calls_507 =
     [Credit ''acct'' (Some 7) ''quiz_reward'',
      Debit ''acct'' (Some 600) ''game_unlock'' None,
      Debit ''acct'' None ''game_unlock'' None,
      Debit ''acct'' (Some 507) ''game_unlock'' (Some ''epic-era-battles'')]"

definition calls_350 :: "ledger_call list" where
  "calls_350 =
     [Credit ''acct'' (Some 500) ''signup_bonus'',
      Debit ''acct'' (Some 200) ''game_unlock'' (Some ''epic-era-battles''),
      Debit ''acct'' (Some 900) ''game_unlock'' None,
      Credit ''acct'' None ''quiz_reward'',
      Credit ''acct'' (Some 50) ''quiz_reward'']"

section \<open>Integer facts\<close>

lemma sint_int4_bounds: "- 2147483648 \<le> sint (a :: int4) \<and> sint a \<le> 2147483647"
  using sint_ge [of a] sint_lt [of a] by simp

lemma sint_int4_add:
  "int4_in_range (sint (a :: int4) + sint b) \<Longrightarrow> sint (a + b) = sint a + sint b"
  by (simp add: int4_in_range_def sint_word_ariths signed_take_bit_int_eq_self)

lemma sint_int4_diff:
  "int4_in_range (sint (a :: int4) - sint b) \<Longrightarrow> sint (a - b) = sint a - sint b"
  by (simp add: int4_in_range_def sint_word_ariths signed_take_bit_int_eq_self)

lemma int4_diff_in_range:
  "0 < sint (a :: int4) \<Longrightarrow> sint a \<le> sint (b :: int4) \<Longrightarrow> int4_in_range (sint b - sint a)"
  using sint_int4_bounds [of b] by (simp add: int4_in_range_def)

lemmas sql_defs =
  sql_le_def sql_lt_def is_true_def sql_int4pl_def sql_int4mi_def jsonb_int4_or_null_def

section \<open>Debit\<close>

text \<open>
  C2. For an existing account with balance \<open>B\<close> and an amount with
  \<open>0 < amount \<le> B\<close>, \<open>deduct_user_coins\<close> returns \<open>B - amount\<close>, stores
  \<open>B - amount\<close> as the account's coins and appends exactly one row to
  \<open>coin_transactions\<close>: action \<open>coin_deduction\<close>, the given amount, and
  \<open>new_balance = B - amount\<close>. Nothing else changes, and the subtraction is
  the one of the integers (it does not leave the 32-bit range).
\<close>

theorem deduct_user_coins_success:
  assumes "profiles d uid = Some B" and "0 < sint amount" and "sint amount \<le> sint B"
  shows "deduct_user_coins uid (Some amount) reason game d =
           (Inr (Some (B - amount)),
            d\<lparr>profiles := (profiles d)(uid \<mapsto> B - amount),
              coin_transactions := coin_transactions d @
                [\<lparr>user_id = uid, action = ''coin_deduction'',
                  details = [(''amount'', JInt amount), (''reason'', JText reason),
                             (''game_id'', jsonb_text_or_null game),
                             (''new_balance'', JInt (B - amount))]\<rparr>]\<rparr>)
         \<and> sint (B - amount) = sint B - sint amount"
proof -
  have r: "int4_in_range (sint B - sint amount)"
    using assms by (simp add: int4_diff_in_range)
  then have s: "sint (B - amount) = sint B - sint amount"
    by (rule sint_int4_diff)
  have nn: "\<not> sint (B - amount) < 0"
    using s assms by simp
  show ?thesis
    using assms r s nn
    by (simp add: deduct_user_coins_def sql_defs int4mi_def update_profiles_coins_def
        insert_coin_transaction_def)
qed

theorem deduct_user_coins_success_witness:
  "profiles db_500 ''acct'' = Some 500 \<and> 0 < sint (200 :: int4)
   \<and> sint (200 :: int4) \<le> sint (500 :: int4)
   \<and> deduct_user_coins ''acct'' (Some 200) ''game_unlock'' (Some ''epic-era-battles'') db_500 =
     (Inr (Some 300),
      \<lparr>profiles = [''acct'' \<mapsto> 300],
       coin_transactions =
         [\<lparr>user_id = ''acct'', action = ''coin_deduction'',
           details = [(''amount'', JInt 200), (''reason'', JText ''game_unlock''),
                      (''game_id'', JText ''epic-era-battles''),
                      (''new_balance'', JInt 300)]\<rparr>]\<rparr>)"
  using deduct_user_coins_success
    [of db_500 "''acct''" 500 200 "''game_unlock''" "Some ''epic-era-battles''"]
  by (simp add: db_500_def jsonb_text_or_null_def)

section \<open>Failures\<close>

text \<open>
  C10. For every account identifier, also one that no row of \<open>profiles\<close>
  has, and every amount \<open>\<le> 0\<close>, both \<open>deduct_user_coins\<close> and
  \<open>add_user_coins\<close> end with the exception "Amount must be positive" and
  not with "User not found": the amount is checked before the account is
  looked up.
\<close>

theorem amount_checked_first:
  assumes "sint amount \<le> 0"
  shows "deduct_user_coins uid (Some amount) reason game d =
           (Inl (RaiseException ''Amount must be positive'' []), d)
         \<and> add_user_coins uid (Some amount) reason' d =
           (Inl (RaiseException ''Amount must be positive'' []), d)"
  using assms by (simp add: deduct_user_coins_def add_user_coins_def sql_defs)

theorem amount_checked_first_witness:
  "sint (- 5 :: int4) \<le> 0 \<and> profiles db_500 ''ghost-id'' = None
   \<and> deduct_user_coins ''ghost-id'' (Some (- 5)) ''x'' None db_500 =
       (Inl (RaiseException ''Amount must be positive'' []), db_500)
   \<and> add_user_coins ''ghost-id'' (Some (- 5)) ''x'' db_500 =
       (Inl (RaiseException ''Amount must be positive'' []), db_500)"
proof -
  have h: "sint (- 5 :: int4) \<le> 0" by simp
  have g: "profiles db_500 ''ghost-id'' = None" by (simp add: db_500_def)
  show ?thesis
    using h g amount_checked_first [OF h, of "''ghost-id''" "''x''" None db_500 "''x''"]
    by simp
qed

lemma update_profiles_add_returning_None:
  "update_profiles_add_returning uid amount d = Inr (None, d1) \<Longrightarrow> d1 = d"
  by (auto simp: update_profiles_add_returning_def split: option.splits sum.splits if_splits)

text \<open>
  C5. Whenever \<open>deduct_user_coins\<close> or \<open>add_user_coins\<close> ends with an error,
  whichever it is, the tables at that point are the tables the call started
  with: no balance is changed and no row is appended. In
  \<open>add_user_coins\<close> the \<open>UPDATE\<close> comes before the "User not found" check, and
  the check can only fail when that \<open>UPDATE\<close> matched no row. The amount is
  any value of the parameter, NULL included.
\<close>

theorem failure_changes_nothing:
  "(isl (fst (deduct_user_coins uid amount reason game d)) \<longrightarrow>
      snd (deduct_user_coins uid amount reason game d) = d)
   \<and> (isl (fst (add_user_coins uid amount reason' d)) \<longrightarrow>
      snd (add_user_coins uid amount reason' d) = d)"
proof
  show "isl (fst (deduct_user_coins uid amount reason game d)) \<longrightarrow>
      snd (deduct_user_coins uid amount reason game d) = d"
    by (simp add: deduct_user_coins_def split: option.splits sum.splits)
next
  show "isl (fst (add_user_coins uid amount reason' d)) \<longrightarrow>
      snd (add_user_coins uid amount reason' d) = d"
    by (auto simp: add_user_coins_def split: option.splits sum.splits
        dest: update_profiles_add_returning_None)
qed

theorem failure_changes_nothing_witness:
  "isl (fst (deduct_user_coins ''acct'' (Some 600) ''x'' None db_500))
   \<and> snd (deduct_user_coins ''acct'' (Some 600) ''x'' None db_500) = db_500
   \<and> isl (fst (add_user_coins ''ghost-id'' (Some 10) ''x'' db_500))
   \<and> snd (add_user_coins ''ghost-id'' (Some 10) ''x'' db_500) = db_500"
proof -
  have h1: "isl (fst (deduct_user_coins ''acct'' (Some 600) ''x'' None db_500))"
    by (simp add: deduct_user_coins_def sql_defs db_500_def)
  have h2: "isl (fst (add_user_coins ''ghost-id'' (Some 10) ''x'' db_500))"
    by (simp add: add_user_coins_def sql_defs update_profiles_add_returning_def db_500_def)
  from failure_changes_nothing [of "''acct''" "Some 600" "''x''" None db_500 "''x''"] h1
  have c1: "snd (deduct_user_coins ''acct'' (Some 600) ''x'' None db_500) = db_500"
    by simp
  from failure_changes_nothing [of "''ghost-id''" "Some 10" "''x''" None db_500 "''x''"] h2
  have c2: "snd (add_user_coins ''ghost-id'' (Some 10) ''x'' db_500) = db_500"
    by simp
  from h1 h2 c1 c2 show ?thesis by simp
qed

text \<open>
  C8. In the copy of \<open>deduct_user_coins\<close> that \<open>execute-setup.js\<close> installs,
  a debit of 600 from a balance of 500 and a debit of 10 from a balance of 5
  end with one and the same exception, "Insufficient coins" with no values:
  the error carries neither the balance nor the amount. The function of the
  SQL setup script raises, on the same inputs, the balance and the amount
  as the two values of its message.
\<close>

theorem execute_setup_insufficient_coins_without_values:
  "deduct_user_coins_execute_setup ''acct'' (Some 600) ''game_unlock'' None db_500 =
     (Inl (RaiseException ''Insufficient coins'' []), db_500)
   \<and> deduct_user_coins_execute_setup ''acct'' (Some 10) ''game_unlock'' None db_5 =
     (Inl (RaiseException ''Insufficient coins'' []), db_5)
   \<and> deduct_user_coins ''acct'' (Some 600) ''game_unlock'' None db_500 =
     (Inl (RaiseException ''Insufficient coins. Have: %, Need: %'' [Some 500, Some 600]),
      db_500)
   \<and> deduct_user_coins ''acct'' (Some 10) ''game_unlock'' None db_5 =
     (Inl (RaiseException ''Insufficient coins. Have: %, Need: %'' [Some 5, Some 10]), db_5)"
  by (simp add: deduct_user_coins_execute_setup_def deduct_user_coins_def sql_defs
      db_500_def db_5_def)

section \<open>Credit\<close>

lemma add_user_coins_result:
  assumes "profiles d uid = Some B" and "0 \<le> sint B" and "0 < sint amount"
  shows "add_user_coins uid (Some amount) reason d =
           (if sint B + sint amount \<le> 2147483647 then
              (Inr (Some (B + amount)),
               d\<lparr>profiles := (profiles d)(uid \<mapsto> B + amount),
                 coin_transactions := coin_transactions d @
                   [\<lparr>user_id = uid, action = ''coin_addition'',
                     details = [(''amount'', JInt amount), (''reason'', JText reason),
                                (''new_balance'', JInt (B + amount))]\<rparr>]\<rparr>)
            else (Inl IntegerOutOfRange, d))"
proof (cases "sint B + sint amount \<le> 2147483647")
  case True
  with assms have r: "int4_in_range (sint B + sint amount)"
    by (simp add: int4_in_range_def)
  then have s: "sint (B + amount) = sint B + sint amount"
    by (rule sint_int4_add)
  have nn: "\<not> sint (B + amount) < 0"
    using s assms by simp
  show ?thesis
    using assms True r nn
    by (simp add: add_user_coins_def sql_defs update_profiles_add_returning_def int4pl_def
        insert_coin_transaction_def)
next
  case False
  then have r: "\<not> int4_in_range (sint B + sint amount)"
    by (simp add: int4_in_range_def)
  show ?thesis
    using assms False r
    by (simp add: add_user_coins_def sql_defs update_profiles_add_returning_def int4pl_def)
qed

text \<open>
  C3, as the code has it. For an existing account with balance \<open>B \<ge> 0\<close> and
  an amount \<open>> 0\<close> such that \<open>B + amount\<close> is still an \<open>INTEGER\<close>
  (\<open>B + amount \<le> 2147483647\<close>), \<open>add_user_coins\<close> returns \<open>B + amount\<close>, stores
  it as the account's coins and appends exactly one row to
  \<open>coin_transactions\<close>: action \<open>coin_addition\<close>, the given amount, and
  \<open>new_balance = B + amount\<close>.
\<close>

theorem add_user_coins_success:
  assumes "profiles d uid = Some B" and "0 \<le> sint B" and "0 < sint amount"
    and "sint B + sint amount \<le> 2147483647"
  shows "add_user_coins uid (Some amount) reason d =
           (Inr (Some (B + amount)),
            d\<lparr>profiles := (profiles d)(uid \<mapsto> B + amount),
              coin_transactions := coin_transactions d @
                [\<lparr>user_id = uid, action = ''coin_addition'',
                  details = [(''amount'', JInt amount), (''reason'', JText reason),
                             (''new_balance'', JInt (B + amount))]\<rparr>]\<rparr>)
         \<and> sint (B + amount) = sint B + sint amount"
proof -
  have r: "int4_in_range (sint B + sint amount)"
    using assms by (simp add: int4_in_range_def)
  then have s: "sint (B + amount) = sint B + sint amount"
    by (rule sint_int4_add)
  show ?thesis
    using assms s by (simp add: add_user_coins_result)
qed

theorem add_user_coins_success_witness:
  "profiles db_500 ''acct'' = Some 500 \<and> 0 \<le> sint (500 :: int4) \<and> 0 < sint (50 :: int4)
   \<and> sint (500 :: int4) + sint (50 :: int4) \<le> 2147483647
   \<and> add_user_coins ''acct'' (Some 50) ''quiz_reward'' db_500 =
     (Inr (Some 550),
      \<lparr>profiles = [''acct'' \<mapsto> 550],
       coin_transactions =
         [\<lparr>user_id = ''acct'', action = ''coin_addition'',
           details = [(''amount'', JInt 50), (''reason'', JText ''quiz_reward''),
                      (''new_balance'', JInt 550)]\<rparr>]\<rparr>)"
  using add_user_coins_success [of db_500 "''acct''" 500 50 "''quiz_reward''"]
  by (simp add: db_500_def)

text \<open>
  C3 as stated fails where the sum leaves the type: the account exists with
  balance 2147483647 and the amount 1 is positive, but the call ends with
  "integer out of range" instead of returning \<open>B + amount\<close>, and writes
  nothing.
\<close>

theorem add_user_coins_overflow_counterexample:
  "profiles db_max ''acct'' = Some 2147483647 \<and> 0 < sint (1 :: int4)
   \<and> add_user_coins ''acct'' (Some 1) ''quiz_reward'' db_max = (Inl IntegerOutOfRange, db_max)"
  by (simp add: add_user_coins_def sql_defs update_profiles_add_returning_def int4pl_def
      int4_in_range_def db_max_def)

section \<open>Which call fails, and how\<close>

lemma deduct_user_coins_result:
  "deduct_user_coins uid (Some amount) reason game d =
     (if sint amount \<le> 0 then (Inl (RaiseException ''Amount must be positive'' []), d)
      else case profiles d uid of
        None \<Rightarrow> (Inl (RaiseException ''User not found'' []), d)
      | Some B \<Rightarrow>
          if sint B < sint amount then
            (Inl (RaiseException ''Insufficient coins. Have: %, Need: %''
                    [Some B, Some amount]), d)
          else
            (Inr (Some (B - amount)),
             d\<lparr>profiles := (profiles d)(uid \<mapsto> B - amount),
               coin_transactions := coin_transactions d @
                 [\<lparr>user_id = uid, action = ''coin_deduction'',
                   details = [(''amount'', JInt amount), (''reason'', JText reason),
                              (''game_id'', jsonb_text_or_null game),
                              (''new_balance'', JInt (B - amount))]\<rparr>]\<rparr>))"
proof (cases "0 < sint amount \<and> (\<exists>B. profiles d uid = Some B \<and> sint amount \<le> sint B)")
  case True
  then obtain B where B: "profiles d uid = Some B" "0 < sint amount" "sint amount \<le> sint B"
    by auto
  have r: "int4_in_range (sint B - sint amount)"
    using B by (simp add: int4_diff_in_range)
  then have s: "sint (B - amount) = sint B - sint amount"
    by (rule sint_int4_diff)
  have nn: "\<not> sint (B - amount) < 0"
    using s B by simp
  show ?thesis
    using B r nn
    by (simp add: deduct_user_coins_def sql_defs int4mi_def update_profiles_coins_def
        insert_coin_transaction_def)
next
  case False
  then show ?thesis
    by (auto simp: deduct_user_coins_def sql_defs split: option.splits)
qed

lemma deduct_user_coins_null:
  "deduct_user_coins uid None reason game d =
     (if profiles d uid = None then (Inl (RaiseException ''User not found'' []), d)
      else (Inl (NotNullViolation ''coins''), d))"
  by (auto simp: deduct_user_coins_def sql_defs update_profiles_coins_def
      split: option.splits)

lemma add_user_coins_null:
  "add_user_coins uid None reason d =
     (if profiles d uid = None then (Inl (RaiseException ''User not found'' []), d)
      else (Inl (NotNullViolation ''coins''), d))"
  by (auto simp: add_user_coins_def sql_defs update_profiles_add_returning_def
      split: option.splits)

lemma add_user_coins_no_account:
  "profiles d uid = None \<Longrightarrow> 0 < sint amount \<Longrightarrow>
   add_user_coins uid (Some amount) reason d = (Inl (RaiseException ''User not found'' []), d)"
  by (simp add: add_user_coins_def sql_defs update_profiles_add_returning_def)

lemma add_user_coins_invalid:
  "sint amount \<le> 0 \<Longrightarrow>
   add_user_coins uid (Some amount) reason d =
     (Inl (RaiseException ''Amount must be positive'' []), d)"
  by (simp add: add_user_coins_def sql_defs)




section \<open>Round trips\<close>

text \<open>
  C6, as the code has it. For an account with balance \<open>B\<close> and an amount \<open>n\<close>
  with \<open>0 < n \<le> B\<close>: a debit of \<open>n\<close> followed by a credit of \<open>n\<close> both
  succeed and leave the balance \<open>B\<close>. A credit of \<open>n\<close> followed by a debit
  of \<open>n\<close> both succeed and leave the balance \<open>B\<close> provided \<open>B + n\<close> is still
  an \<open>INTEGER\<close> (\<open>B + n \<le> 2147483647\<close>). Otherwise the credit ends with
  "integer out of range" and writes nothing, the debit that follows
  succeeds, and the balance ends at \<open>B - n\<close>.
\<close>

theorem round_trip:
  assumes "profiles d uid = Some B" and "0 < sint n" and "sint n \<le> sint B"
  shows "fst (deduct_user_coins uid (Some n) reason game d) = Inr (Some (B - n))
     \<and> fst (add_user_coins uid (Some n) reason'
              (snd (deduct_user_coins uid (Some n) reason game d))) = Inr (Some B)
     \<and> profiles (snd (add_user_coins uid (Some n) reason'
                        (snd (deduct_user_coins uid (Some n) reason game d)))) uid = Some B
     \<and> (sint B + sint n \<le> 2147483647 \<longrightarrow>
          fst (add_user_coins uid (Some n) reason' d) = Inr (Some (B + n))
        \<and> fst (deduct_user_coins uid (Some n) reason game
                 (snd (add_user_coins uid (Some n) reason' d))) = Inr (Some B)
        \<and> profiles (snd (deduct_user_coins uid (Some n) reason game
                           (snd (add_user_coins uid (Some n) reason' d)))) uid = Some B)
     \<and> (2147483647 < sint B + sint n \<longrightarrow>
          add_user_coins uid (Some n) reason' d = (Inl IntegerOutOfRange, d)
        \<and> fst (deduct_user_coins uid (Some n) reason game
                 (snd (add_user_coins uid (Some n) reason' d))) = Inr (Some (B - n))
        \<and> profiles (snd (deduct_user_coins uid (Some n) reason game
                           (snd (add_user_coins uid (Some n) reason' d)))) uid = Some (B - n)
        \<and> sint (B - n) = sint B - sint n)"
proof -
  have B0: "0 \<le> sint B" using assms by simp
  have r: "int4_in_range (sint B - sint n)"
    using assms by (simp add: int4_diff_in_range)
  then have s: "sint (B - n) = sint B - sint n"
    by (rule sint_int4_diff)
  have d1: "deduct_user_coins uid (Some n) reason game d =
     (Inr (Some (B - n)),
      d\<lparr>profiles := (profiles d)(uid \<mapsto> B - n),
        coin_transactions := coin_transactions d @
          [\<lparr>user_id = uid, action = ''coin_deduction'',
            details = [(''amount'', JInt n), (''reason'', JText reason),
                       (''game_id'', jsonb_text_or_null game),
                       (''new_balance'', JInt (B - n))]\<rparr>]\<rparr>)" (is "_ = (_, ?d1)")
    using assms by (simp add: deduct_user_coins_result)
  have p1: "profiles ?d1 uid = Some (B - n)" by simp
  have nn1: "0 \<le> sint (B - n)" using s assms by simp
  have le1: "sint (B - n) + sint n \<le> 2147483647"
    using s sint_int4_bounds [of B] by simp
  have a1: "fst (add_user_coins uid (Some n) reason' ?d1) = Inr (Some B)
          \<and> profiles (snd (add_user_coins uid (Some n) reason' ?d1)) uid = Some B"
    using add_user_coins_result [OF p1 nn1 assms(2), of reason'] le1 by simp
  have second: "fst (add_user_coins uid (Some n) reason' d) = Inr (Some (B + n))
        \<and> fst (deduct_user_coins uid (Some n) reason game
                 (snd (add_user_coins uid (Some n) reason' d))) = Inr (Some B)
        \<and> profiles (snd (deduct_user_coins uid (Some n) reason game
                           (snd (add_user_coins uid (Some n) reason' d)))) uid = Some B"
    if le: "sint B + sint n \<le> 2147483647"
  proof -
    have r2: "int4_in_range (sint B + sint n)"
      using le assms B0 by (simp add: int4_in_range_def)
    then have s2: "sint (B + n) = sint B + sint n"
      by (rule sint_int4_add)
    have a2: "add_user_coins uid (Some n) reason' d =
       (Inr (Some (B + n)),
        d\<lparr>profiles := (profiles d)(uid \<mapsto> B + n),
          coin_transactions := coin_transactions d @
            [\<lparr>user_id = uid, action = ''coin_addition'',
              details = [(''amount'', JInt n), (''reason'', JText reason'),
                         (''new_balance'', JInt (B + n))]\<rparr>]\<rparr>)" (is "_ = (_, ?d2)")
      using add_user_coins_result [OF assms(1) B0 assms(2), of reason'] le by simp
    have ge: "\<not> sint (B + n) < sint n" using s2 B0 by simp
    have "fst (deduct_user_coins uid (Some n) reason game ?d2) = Inr (Some B)
        \<and> profiles (snd (deduct_user_coins uid (Some n) reason game ?d2)) uid = Some B"
      using assms(2) ge by (simp add: deduct_user_coins_result)
    with a2 show ?thesis by simp
  qed
  have third: "add_user_coins uid (Some n) reason' d = (Inl IntegerOutOfRange, d)
        \<and> fst (deduct_user_coins uid (Some n) reason game
                 (snd (add_user_coins uid (Some n) reason' d))) = Inr (Some (B - n))
        \<and> profiles (snd (deduct_user_coins uid (Some n) reason game
                           (snd (add_user_coins uid (Some n) reason' d)))) uid = Some (B - n)
        \<and> sint (B - n) = sint B - sint n"
    if gt: "2147483647 < sint B + sint n"
  proof -
    have a3: "add_user_coins uid (Some n) reason' d = (Inl IntegerOutOfRange, d)"
      using add_user_coins_result [OF assms(1) B0 assms(2), of reason'] gt by simp
    with d1 p1 s show ?thesis by simp
  qed
  from d1 a1 second third show ?thesis by simp
qed

theorem round_trip_witness:
  "profiles db_500 ''acct'' = Some 500 \<and> 0 < sint (200 :: int4)
   \<and> sint (200 :: int4) \<le> sint (500 :: int4)
   \<and> profiles (snd (add_user_coins ''acct'' (Some 200) ''r''
                      (snd (deduct_user_coins ''acct'' (Some 200) ''r'' None db_500)))) ''acct''
       = Some 500
   \<and> sint (500 :: int4) + sint (200 :: int4) \<le> 2147483647
   \<and> profiles (snd (deduct_user_coins ''acct'' (Some 200) ''r'' None
                      (snd (add_user_coins ''acct'' (Some 200) ''r'' db_500)))) ''acct''
       = Some 500
   \<and> profiles db_max ''acct'' = Some 2147483647 \<and> 0 < sint (1 :: int4)
   \<and> sint (1 :: int4) \<le> sint (2147483647 :: int4)
   \<and> 2147483647 < sint (2147483647 :: int4) + sint (1 :: int4)
   \<and> profiles (snd (deduct_user_coins ''acct'' (Some 1) ''r'' None
                      (snd (add_user_coins ''acct'' (Some 1) ''r'' db_max)))) ''acct''
       = Some 2147483646"
proof -
  have p: "profiles db_500 ''acct'' = Some 500" by (simp add: db_500_def)
  have h1: "0 < sint (200 :: int4)" by simp
  have h2: "sint (200 :: int4) \<le> sint (500 :: int4)" by simp
  have h3: "sint (500 :: int4) + sint (200 :: int4) \<le> 2147483647" by simp
  from round_trip [OF p h1 h2, of "''r''" None "''r''"] h3
  have a: "profiles (snd (add_user_coins ''acct'' (Some 200) ''r''
                      (snd (deduct_user_coins ''acct'' (Some 200) ''r'' None db_500)))) ''acct''
       = Some 500"
    and b: "profiles (snd (deduct_user_coins ''acct'' (Some 200) ''r'' None
                      (snd (add_user_coins ''acct'' (Some 200) ''r'' db_500)))) ''acct''
       = Some 500"
    by simp_all
  have q: "profiles db_max ''acct'' = Some 2147483647" by (simp add: db_max_def)
  have g1: "0 < sint (1 :: int4)" by simp
  have g2: "sint (1 :: int4) \<le> sint (2147483647 :: int4)" by simp
  have g3: "2147483647 < sint (2147483647 :: int4) + sint (1 :: int4)" by simp
  from round_trip [OF q g1 g2, of "''r''" None "''r''"] g3
  have "profiles (snd (deduct_user_coins ''acct'' (Some 1) ''r'' None
                      (snd (add_user_coins ''acct'' (Some 1) ''r'' db_max)))) ''acct''
       = Some (2147483647 - 1)"
    by blast
  then have c: "profiles (snd (deduct_user_coins ''acct'' (Some 1) ''r'' None
                      (snd (add_user_coins ''acct'' (Some 1) ''r'' db_max)))) ''acct''
       = Some 2147483646"
    by simp
  from p h1 h2 h3 a b q g1 g2 g3 c show ?thesis by simp
qed

text \<open>
  C6 as stated fails for the credit-first order where \<open>B + n\<close> leaves the
  type: with \<open>B = 2147483647\<close> and \<open>n = 1\<close> (so \<open>0 < n \<le> B\<close>) the credit ends
  with "integer out of range" and writes nothing, the debit that follows
  succeeds, and the balance is left at 2147483646, not at \<open>B\<close>.
\<close>

theorem round_trip_counterexample:
  "profiles db_max ''acct'' = Some 2147483647 \<and> 0 < sint (1 :: int4)
   \<and> sint (1 :: int4) \<le> sint (2147483647 :: int4)
   \<and> fst (add_user_coins ''acct'' (Some 1) ''r'' db_max) = Inl IntegerOutOfRange
   \<and> fst (deduct_user_coins ''acct'' (Some 1) ''r'' None
            (snd (add_user_coins ''acct'' (Some 1) ''r'' db_max)))
       = Inr (Some 2147483646)
   \<and> profiles (snd (deduct_user_coins ''acct'' (Some 1) ''r'' None
                      (snd (add_user_coins ''acct'' (Some 1) ''r'' db_max)))) ''acct''
       = Some 2147483646"
proof -
  have a: "add_user_coins ''acct'' (Some 1) ''r'' db_max = (Inl IntegerOutOfRange, db_max)"
    by (simp add: add_user_coins_def sql_defs update_profiles_add_returning_def int4pl_def
      int4_in_range_def db_max_def)
  have p: "profiles db_max ''acct'' = Some 2147483647" by (simp add: db_max_def)
  show ?thesis
    using a p by (simp add: deduct_user_coins_result)
qed

section \<open>The balance is never negative\<close>

lemma deduct_user_coins_non_negative:
  "coins_non_negative d \<Longrightarrow> coins_non_negative (snd (deduct_user_coins uid amount reason game d))"
  by (auto simp: coins_non_negative_def deduct_user_coins_def update_profiles_coins_def
      insert_coin_transaction_def split: option.splits sum.splits if_splits)

lemma add_user_coins_non_negative:
  "coins_non_negative d \<Longrightarrow> coins_non_negative (snd (add_user_coins uid amount reason d))"
  by (auto simp: coins_non_negative_def add_user_coins_def update_profiles_add_returning_def
      insert_coin_transaction_def split: option.splits sum.splits if_splits)

lemma perform_non_negative:
  "coins_non_negative d \<Longrightarrow> coins_non_negative (snd (perform c d))"
  by (cases c) (simp_all add: deduct_user_coins_non_negative add_user_coins_non_negative)

lemma run_calls_Nil: "run_calls [] d = d"
  by (simp add: run_calls_def)

lemma run_calls_Cons: "run_calls (c # cs) d = run_calls cs (snd (perform c d))"
  by (simp add: run_calls_def)

lemma run_calls_non_negative:
  "coins_non_negative d \<Longrightarrow> coins_non_negative (run_calls cs d)"
proof (induction cs arbitrary: d)
  case Nil
  then show ?case by (simp add: run_calls_Nil)
next
  case (Cons c cs)
  from Cons.prems have "coins_non_negative (snd (perform c d))"
    by (rule perform_non_negative)
  then show ?case
    by (simp add: run_calls_Cons Cons.IH)
qed

text \<open>
  C1. Start from tables in which every balance is \<open>\<ge> 0\<close> and make any
  finite sequence of debit and credit calls, on any accounts, with any
  arguments (a NULL amount included). In the tables that result every
  balance is \<open>\<ge> 0\<close>; since the sequence is arbitrary, this holds after each
  call of a longer run. In these tables a debit of more than the account's
  balance is rejected with "Insufficient coins" (carrying the balance and
  the amount) and leaves the tables as they are: the balance is not set to
  0.
\<close>

theorem balance_never_negative:
  assumes "coins_non_negative d"
  shows "coins_non_negative (run_calls cs d)
     \<and> (\<forall>uid B amount reason game.
          profiles (run_calls cs d) uid = Some B \<and> sint B < sint amount \<longrightarrow>
          deduct_user_coins uid (Some amount) reason game (run_calls cs d) =
            (Inl (RaiseException ''Insufficient coins. Have: %, Need: %''
                    [Some B, Some amount]),
             run_calls cs d))"
proof
  show nn: "coins_non_negative (run_calls cs d)"
    using assms by (rule run_calls_non_negative)
  show "\<forall>uid B amount reason game.
          profiles (run_calls cs d) uid = Some B \<and> sint B < sint amount \<longrightarrow>
          deduct_user_coins uid (Some amount) reason game (run_calls cs d) =
            (Inl (RaiseException ''Insufficient coins. Have: %, Need: %''
                    [Some B, Some amount]),
             run_calls cs d)"
  proof (intro allI impI)
    fix uid :: uuid and B amount :: int4 and reason :: string and game :: "string option"
    assume a: "profiles (run_calls cs d) uid = Some B \<and> sint B < sint amount"
    then have "0 \<le> sint B"
      using nn by (auto simp: coins_non_negative_def)
    with a show "deduct_user_coins uid (Some amount) reason game (run_calls cs d) =
            (Inl (RaiseException ''Insufficient coins. Have: %, Need: %''
                    [Some B, Some amount]),
             run_calls cs d)"
      by (simp add: deduct_user_coins_result)
  qed
qed

theorem balance_never_negative_witness:
  "coins_non_negative db_500
   \<and> coins_non_negative (run_calls calls_507 db_500)
   \<and> profiles (run_calls calls_507 db_500) ''acct'' = Some 0
   \<and> sint (0 :: int4) < sint (1 :: int4)
   \<and> deduct_user_coins ''acct'' (Some 1) ''game_unlock'' None (run_calls calls_507 db_500) =
       (Inl (RaiseException ''Insufficient coins. Have: %, Need: %'' [Some 0, Some 1]),
        run_calls calls_507 db_500)"
proof -
  have h: "coins_non_negative db_500"
    by (simp add: coins_non_negative_def db_500_def)
  have p: "profiles (run_calls calls_507 db_500) ''acct'' = Some 0"
    by (simp add: run_calls_def calls_507_def db_500_def deduct_user_coins_result
        deduct_user_coins_null add_user_coins_def sql_defs update_profiles_add_returning_def
        int4pl_def int4_in_range_def insert_coin_transaction_def)
  note t = balance_never_negative [OF h, of calls_507]
  from t have c1: "coins_non_negative (run_calls calls_507 db_500)"
    by simp
  from t p have c2:
    "deduct_user_coins ''acct'' (Some 1) ''game_unlock'' None (run_calls calls_507 db_500) =
       (Inl (RaiseException ''Insufficient coins. Have: %, Need: %'' [Some 0, Some 1]),
        run_calls calls_507 db_500)"
    by simp
  from h p c1 c2 show ?thesis by simp
qed

section \<open>The log replays to the balance\<close>

lemma replay_append:
  "replay b (xs @ ys) = (case replay b xs of None \<Rightarrow> None | Some b' \<Rightarrow> replay b' ys)"
  by (induction xs arbitrary: b) (auto split: option.splits)

lemma entries_of_unchanged:
  "entries_of uid' (d\<lparr>profiles := m, coin_transactions := coin_transactions d @ [e]\<rparr>) =
     (if user_id e = uid' then entries_of uid' d @ [e] else entries_of uid' d)"
  by (simp add: entries_of_def)

lemma fresh_consistent:
  assumes "fresh d"
  shows "coins_non_negative d \<and> ledger_consistent d"
proof -
  have z: "c = 0" if "profiles d uid = Some c" for uid c
    using assms that by (simp add: fresh_def)
  have e: "entries_of uid d = []" for uid
    using assms by (simp add: fresh_def entries_of_def)
  have "coins_non_negative d"
    unfolding coins_non_negative_def using z by fastforce
  moreover have "ledger_consistent d"
    unfolding ledger_consistent_def using z e by fastforce
  ultimately show ?thesis by simp
qed

lemma deduct_user_coins_Some_consistent:
  assumes "ledger_consistent d"
  shows "ledger_consistent (snd (deduct_user_coins uid (Some amount) reason game d))"
proof (cases "0 < sint amount \<and> (\<exists>B. profiles d uid = Some B \<and> sint amount \<le> sint B)")
  case True
  then obtain B where B: "profiles d uid = Some B" "0 < sint amount" "sint amount \<le> sint B"
    by auto
  have s: "sint (B - amount) = sint B - sint amount"
    using B by (simp add: sint_int4_diff int4_diff_in_range)
  have old: "replay 0 (entries_of uid d) = Some (sint B)"
    using assms B by (simp add: ledger_consistent_def)
  show ?thesis
    unfolding ledger_consistent_def
  proof (intro allI impI)
    fix uid' :: uuid and B' :: int4
    assume p: "profiles (snd (deduct_user_coins uid (Some amount) reason game d)) uid' = Some B'"
    show "replay 0 (entries_of uid' (snd (deduct_user_coins uid (Some amount) reason game d))) =
            Some (sint B')"
    proof (cases "uid' = uid")
      case True
      with p B have "B' = B - amount"
        by (simp add: deduct_user_coins_result)
      with True B old s show ?thesis
        by (simp add: deduct_user_coins_result entries_of_unchanged replay_append
            replay_entry_def jsonb_int_def)
    next
      case False
      with p B have "profiles d uid' = Some B'"
        by (simp add: deduct_user_coins_result)
      with assms have "replay 0 (entries_of uid' d) = Some (sint B')"
        by (simp add: ledger_consistent_def)
      with False B show ?thesis
        by (simp add: deduct_user_coins_result entries_of_unchanged)
    qed
  qed
next
  case False
  then have "snd (deduct_user_coins uid (Some amount) reason game d) = d"
    by (auto simp: deduct_user_coins_result split: option.splits)
  with assms show ?thesis by simp
qed

lemma deduct_user_coins_consistent:
  assumes "ledger_consistent d"
  shows "ledger_consistent (snd (deduct_user_coins uid amount reason game d))"
proof (cases amount)
  case None
  with assms show ?thesis by (simp add: deduct_user_coins_null)
next
  case (Some n)
  with assms show ?thesis by (simp add: deduct_user_coins_Some_consistent)
qed

lemma add_user_coins_Some_consistent:
  assumes "ledger_consistent d" and "coins_non_negative d"
  shows "ledger_consistent (snd (add_user_coins uid (Some amount) reason d))"
proof (cases "0 < sint amount \<and> (\<exists>B. profiles d uid = Some B \<and> sint B + sint amount \<le> 2147483647)")
  case True
  then obtain B where B: "profiles d uid = Some B" "0 < sint amount"
      "sint B + sint amount \<le> 2147483647"
    by auto
  have B0: "0 \<le> sint B"
    using assms(2) B(1) by (auto simp: coins_non_negative_def)
  have s: "sint (B + amount) = sint B + sint amount"
    using B B0 by (simp add: sint_int4_add int4_in_range_def)
  have old: "replay 0 (entries_of uid d) = Some (sint B)"
    using assms B by (simp add: ledger_consistent_def)
  note res = add_user_coins_result [OF B(1) B0 B(2), of reason]
  show ?thesis
    unfolding ledger_consistent_def
  proof (intro allI impI)
    fix uid' :: uuid and B' :: int4
    assume p: "profiles (snd (add_user_coins uid (Some amount) reason d)) uid' = Some B'"
    show "replay 0 (entries_of uid' (snd (add_user_coins uid (Some amount) reason d))) =
            Some (sint B')"
    proof (cases "uid' = uid")
      case True
      with p B have "B' = B + amount"
        by (simp add: res)
      with True B old s show ?thesis
        by (simp add: res entries_of_unchanged replay_append replay_entry_def jsonb_int_def)
    next
      case False
      with p B have "profiles d uid' = Some B'"
        by (simp add: res)
      with assms have "replay 0 (entries_of uid' d) = Some (sint B')"
        by (simp add: ledger_consistent_def)
      with False B show ?thesis
        by (simp add: res entries_of_unchanged)
    qed
  qed
next
  case False
  have "snd (add_user_coins uid (Some amount) reason d) = d"
  proof (cases "sint amount \<le> 0")
    case True
    then show ?thesis by (simp add: add_user_coins_invalid)
  next
    case pos: False
    show ?thesis
    proof (cases "profiles d uid")
      case None
      with pos show ?thesis by (simp add: add_user_coins_no_account)
    next
      case (Some B)
      then have "0 \<le> sint B"
        using assms(2) by (auto simp: coins_non_negative_def)
      with Some pos False show ?thesis
        by (simp add: add_user_coins_result)
    qed
  qed
  with assms show ?thesis by simp
qed

lemma add_user_coins_consistent:
  assumes "ledger_consistent d" and "coins_non_negative d"
  shows "ledger_consistent (snd (add_user_coins uid amount reason d))"
proof (cases amount)
  case None
  with assms show ?thesis by (simp add: add_user_coins_null)
next
  case (Some n)
  with assms show ?thesis by (simp add: add_user_coins_Some_consistent)
qed

lemma run_calls_consistent:
  "coins_non_negative d \<Longrightarrow> ledger_consistent d \<Longrightarrow> ledger_consistent (run_calls cs d)"
proof (induction cs arbitrary: d)
  case Nil
  then show ?case by (simp add: run_calls_Nil)
next
  case (Cons c cs)
  have nn: "coins_non_negative (snd (perform c d))"
    using Cons.prems(1) by (rule perform_non_negative)
  have lc: "ledger_consistent (snd (perform c d))"
    using Cons.prems
    by (cases c) (simp_all add: deduct_user_coins_consistent add_user_coins_consistent)
  show ?case
    using Cons.IH [OF nn lc] by (simp add: run_calls_Cons)
qed

text \<open>
  C7. Start from tables on which no ledger function has run (every balance
  0, no row in \<open>coin_transactions\<close>) and make any finite sequence of debit
  and credit calls; a call that fails leaves the tables as they are, so
  these are the tables that successful calls produce. Then for every
  account, replaying its rows of \<open>coin_transactions\<close> in order from 0,
  adding the amount of each \<open>coin_addition\<close> and subtracting the amount of
  each \<open>coin_deduction\<close>, meets the \<open>new_balance\<close> recorded in every row
  (\<open>replay\<close> is \<open>None\<close> otherwise) and ends at the coins the account holds.
\<close>

theorem log_replays_to_balance:
  assumes "fresh d0" and "profiles (run_calls cs d0) uid = Some B"
  shows "replay 0 (entries_of uid (run_calls cs d0)) = Some (sint B)"
proof -
  from assms(1) have "coins_non_negative d0" and "ledger_consistent d0"
    by (simp_all add: fresh_consistent)
  then have "ledger_consistent (run_calls cs d0)"
    by (rule run_calls_consistent)
  with assms(2) show ?thesis
    by (simp add: ledger_consistent_def)
qed

theorem log_replays_to_balance_witness:
  "fresh db_fresh
   \<and> profiles (run_calls calls_350 db_fresh) ''acct'' = Some 350
   \<and> map action (entries_of ''acct'' (run_calls calls_350 db_fresh)) =
       [''coin_addition'', ''coin_deduction'', ''coin_addition'']
   \<and> replay 0 (entries_of ''acct'' (run_calls calls_350 db_fresh)) = Some 350"
proof -
  have h: "fresh db_fresh"
    by (simp add: fresh_def db_fresh_def)
  have r: "run_calls calls_350 db_fresh =
      \<lparr>profiles = [''acct'' \<mapsto> 350],
       coin_transactions =
         [\<lparr>user_id = ''acct'', action = ''coin_addition'',
           details = [(''amount'', JInt 500), (''reason'', JText ''signup_bonus''),
                      (''new_balance'', JInt 500)]\<rparr>,
          \<lparr>user_id = ''acct'', action = ''coin_deduction'',
           details = [(''amount'', JInt 200), (''reason'', JText ''game_unlock''),
                      (''game_id'', JText ''epic-era-battles''),
                      (''new_balance'', JInt 300)]\<rparr>,
          \<lparr>user_id = ''acct'', action = ''coin_addition'',
           details = [(''amount'', JInt 50), (''reason'', JText ''quiz_reward''),
                      (''new_balance'', JInt 350)]\<rparr>]\<rparr>"
    by (simp add: run_calls_def calls_350_def db_fresh_def deduct_user_coins_result
        add_user_coins_null add_user_coins_def sql_defs update_profiles_add_returning_def
        int4pl_def int4_in_range_def insert_coin_transaction_def jsonb_text_or_null_def)
  then have p: "profiles (run_calls calls_350 db_fresh) ''acct'' = Some 350"
    by simp
  have a: "map action (entries_of ''acct'' (run_calls calls_350 db_fresh)) =
       [''coin_addition'', ''coin_deduction'', ''coin_addition'']"
    by (simp add: r entries_of_def)
  from log_replays_to_balance [OF h p]
  have "replay 0 (entries_of ''acct'' (run_calls calls_350 db_fresh)) = Some 350"
    by simp
  with h p a show ?thesis by simp
qed

section \<open>Debits one after the other\<close>

text \<open>
  The row lock of \<open>SELECT ... FOR UPDATE\<close> makes the engine run the calls on
  one account one after the other; that part is the engine's and is not
  modelled. What the function body contributes is the count when the calls
  do run in sequence: of \<open>N\<close> debits of \<open>n > 0\<close> from a balance \<open>B \<ge> 0\<close>,
  the first \<open>B div n\<close> succeed (all \<open>N\<close> when there are fewer) and the others
  are rejected.
\<close>

lemma nat_div_step: "0 < (n::int) \<Longrightarrow> n \<le> b \<Longrightarrow> nat (b div n) = Suc (nat ((b - n) div n))"
proof -
  assume n: "0 < n" and b: "n \<le> b"
  have "b div n = (b - n) div n + 1"
    using n div_add_self2 [of n "b - n"] by simp
  moreover have "0 \<le> (b - n) div n"
    using n b by (simp add: pos_imp_zdiv_nonneg_iff)
  ultimately show ?thesis by simp
qed

lemma serial_debits:
  assumes "profiles d uid = Some B" and "0 \<le> sint B" and "0 < sint n"
  shows "successes (replicate N (Debit uid (Some n) reason game)) d =
           min N (nat (sint B div sint n))"
  using assms
proof (induction N arbitrary: d B)
  case 0
  then show ?case by simp
next
  case (Suc N)
  show ?case
  proof (cases "sint B < sint n")
    case True
    then have z: "sint B div sint n = 0"
      using Suc.prems by (simp add: div_pos_pos_trivial)
    have "deduct_user_coins uid (Some n) reason game d =
        (Inl (RaiseException ''Insufficient coins. Have: %, Need: %'' [Some B, Some n]), d)"
      using True Suc.prems by (simp add: deduct_user_coins_result)
    then show ?thesis
      using Suc.IH [OF Suc.prems] z by simp
  next
    case False
    then have le: "sint n \<le> sint B" by simp
    have s: "sint (B - n) = sint B - sint n"
      using Suc.prems le by (simp add: sint_int4_diff int4_diff_in_range)
    let ?d' = "snd (deduct_user_coins uid (Some n) reason game d)"
    have r: "fst (deduct_user_coins uid (Some n) reason game d) = Inr (Some (B - n))"
      and p: "profiles ?d' uid = Some (B - n)"
      using False Suc.prems by (simp_all add: deduct_user_coins_result)
    have nn: "0 \<le> sint (B - n)" using s le by simp
    have "successes (replicate N (Debit uid (Some n) reason game)) ?d' =
        min N (nat (sint (B - n) div sint n))"
      using Suc.IH [OF p nn Suc.prems(3)] .
    moreover have "nat (sint B div sint n) = Suc (nat ((sint B - sint n) div sint n))"
      using Suc.prems(3) le by (rule nat_div_step)
    ultimately show ?thesis
      using r s by (simp add: split_beta)
  qed
qed

end
